theory Spec2Isabelle
  imports Main
begin

section \<open>The Nebius chat adapter (core/llm/llms/Nebius.ts)\<close>

text \<open>
  A shallow embedding of the class \<^verbatim>\<open>Nebius\<close>: the message normaliser
  \<^verbatim>\<open>_convertMessage\<close>, the request builder \<^verbatim>\<open>_convertArgs\<close>, the endpoint
  resolver \<^verbatim>\<open>_getEndpoint\<close> and the three operations \<^verbatim>\<open>_streamChat\<close>,
  \<^verbatim>\<open>_complete\<close> and \<^verbatim>\<open>_streamComplete\<close>. An optional property of a JavaScript
  object is an \<open>option\<close> whose \<open>None\<close> is \<^verbatim>\<open>undefined\<close>; a thrown exception is a
  value of type \<open>error\<close>.
\<close>

subsection \<open>Data model\<close>

text \<open>
  An image reference is an object with string-valued properties (\<^verbatim>\<open>{ url: string }\<close> on
  the way in), kept as a partial map so that the object spread of the source is a map
  update.
\<close>

type_synonym js_object = "string \<rightharpoonup> string"

text \<open>
  One content part. On the way in it has \<^verbatim>\<open>type\<close>, \<^verbatim>\<open>text?\<close> and \<^verbatim>\<open>imageUrl?\<close>;
  the wire part built by the normaliser has \<^verbatim>\<open>type\<close>, \<^verbatim>\<open>text\<close> and, for an image,
  \<^verbatim>\<open>image_url\<close>. The source types the wire part as \<^verbatim>\<open>any\<close>, so one record holds
  both shapes. The kind tag is the string the source compares.
\<close>

record part =
  type :: string
  "text" :: "string option"
  imageUrl :: "js_object option"
  image_url :: "js_object option"

datatype message_content = Str string | Parts "part list"

text \<open>
  A chat message. The record is extensible: every property other than \<^verbatim>\<open>role\<close> and
  \<^verbatim>\<open>content\<close> lives in the \<open>more\<close> part, which the spread \<^verbatim>\<open>...message\<close> copies.
\<close>

record chat_message =
  role :: string
  content :: message_content

text \<open>
  The options bag read by the request builder. JavaScript numbers that are only copied
  are values of the type parameter \<open>'n\<close>.
\<close>

record 'n completion_options =
  model :: string
  maxTokens :: "'n option"
  temperature :: "'n option"
  topP :: "'n option"
  frequencyPenalty :: "'n option"
  presencePenalty :: "'n option"
  stream :: "bool option"
  stop :: "string list option"

text \<open>The request payload \<^verbatim>\<open>finalOptions\<close>.\<close>

record ('n, 'm) final_options =
  messages :: "'m chat_message_scheme list"
  model :: string
  max_tokens :: "'n option"
  temperature :: "'n option"
  top_p :: "'n option"
  frequency_penalty :: "'n option"
  presence_penalty :: "'n option"
  stream :: bool
  stop :: "string list option"

text \<open>
  The fields of the adapter instance that the modelled methods read. \<^verbatim>\<open>maxStopWords\<close>
  is a count, kept as an integer because the source passes it to \<^verbatim>\<open>slice\<close>, which
  accepts a negative end.
\<close>

record adapter =
  apiBase :: "string option"
  apiKey :: "string option"
  maxStopWords :: "int option"

subsection \<open>Message normaliser\<close>

text \<open>
  \<^verbatim>\<open>Array.prototype.join("")\<close>: an \<^verbatim>\<open>undefined\<close> element contributes the empty
  string.
\<close>

definition join_empty :: "string option list \<Rightarrow> string" where
  "join_empty xs = concat (map (\<lambda>x. case x of None \<Rightarrow> [] | Some s \<Rightarrow> s) xs)"

text \<open>
  The callback of the second \<^verbatim>\<open>map\<close> in \<^verbatim>\<open>_convertMessage\<close>: a fresh object with
  \<^verbatim>\<open>type\<close> and \<^verbatim>\<open>text\<close>; for \<^verbatim>\<open>type === "imageUrl"\<close> the property \<^verbatim>\<open>image_url\<close> is
  the spread of \<^verbatim>\<open>part.imageUrl\<close> (nothing when it is \<^verbatim>\<open>undefined\<close>) with
  \<^verbatim>\<open>detail: "low"\<close> written last, and \<^verbatim>\<open>type\<close> is overwritten.
\<close>

definition spread :: "js_object option \<Rightarrow> js_object" where
  "spread obj = (case obj of None \<Rightarrow> Map.empty | Some m \<Rightarrow> m)"

definition convertPart :: "part \<Rightarrow> part" where
  "convertPart p =
     (let msg = \<lparr>type = type p, text = text p, imageUrl = None, image_url = None\<rparr>
      in if type p = ''imageUrl''
         then msg\<lparr>image_url := Some ((spread (imageUrl p))(''detail'' \<mapsto> ''low'')),
                  type := ''image_url''\<rparr>
         else msg)"

definition convertMessage :: "'m chat_message_scheme \<Rightarrow> 'm chat_message_scheme" where
  "convertMessage message =
     (case content message of
        Str s \<Rightarrow> message
      | Parts items \<Rightarrow>
          if \<not> list_ex (\<lambda>item. type item \<noteq> ''text'') items
          then message\<lparr>content := Str (join_empty (map text items))\<rparr>
          else message\<lparr>content := Parts (map convertPart items)\<rparr>)"

subsection \<open>Request builder\<close>

text \<open>
  \<^verbatim>\<open>xs.slice(0, n)\<close> for an integer \<open>n\<close>: a negative end counts from the end of the
  array, and the result is empty when the end is not after the start.
\<close>

definition slice0 :: "'a list \<Rightarrow> int \<Rightarrow> 'a list" where
  "slice0 xs n =
     (let len = int (length xs);
          final = (if n < 0 then max (len + n) 0 else min n len)
      in take (nat final) xs)"

definition convertArgs ::
  "adapter \<Rightarrow> 'n completion_options \<Rightarrow> 'm chat_message_scheme list \<Rightarrow> ('n, 'm) final_options"
where
  "convertArgs this options msgs =
     \<lparr>messages = map convertMessage msgs,
      model = completion_options.model options,
      max_tokens = maxTokens options,
      temperature = completion_options.temperature options,
      top_p = topP options,
      frequency_penalty = frequencyPenalty options,
      presence_penalty = presencePenalty options,
      stream = (case completion_options.stream options of None \<Rightarrow> True | Some b \<Rightarrow> b),
      stop = (case maxStopWords this of
                Some n \<Rightarrow> (case completion_options.stop options of
                             None \<Rightarrow> None
                           | Some ws \<Rightarrow> Some (slice0 ws n))
              | None \<Rightarrow> completion_options.stop options)\<rparr>"

subsection \<open>Errors, collaborators and effects\<close>

text \<open>
  A thrown value: \<^verbatim>\<open>new Error(msg)\<close>, or a \<^verbatim>\<open>TypeError\<close> of the runtime (reading a
  property of \<^verbatim>\<open>undefined\<close>, an invalid URL). The transport and the decoders throw
  values of the same type.
\<close>

datatype error = Error string | TypeError string

text \<open>
  What the server sends, in both wire formats: \<^verbatim>\<open>{choices: [{delta: {role?, content?}}]}\<close>
  for a streamed event and \<^verbatim>\<open>{choices: [{message: {role, content}}]}\<close> for a whole
  response. Every property the source reads is optional here, so that each access on a
  missing property is a branch of the model.
\<close>

record chat_delta =
  role :: "string option"
  content :: "string option"

record choice =
  delta :: "chat_delta option"
  message :: "chat_delta option"

record payload =
  choices :: "choice list option"

text \<open>
  A response of the transport, as the two readers of the source see it:
  \<^verbatim>\<open>await response.json()\<close> gives a parsed body or throws, and \<^verbatim>\<open>streamSse(response)\<close>
  (from \<^verbatim>\<open>../stream.js\<close>, not part of this file) gives the decoded events in arrival
  order and then either closes or throws.
\<close>

record response =
  json :: "error + payload"
  streamSse :: "payload list \<times> error option"

text \<open>
  The second argument of \<^verbatim>\<open>this.fetch\<close>. The body is kept as the payload that
  \<^verbatim>\<open>JSON.stringify\<close> serialises, not as its text.
\<close>

record ('n, 'm) request =
  "method" :: string
  headers :: "(string \<times> string) list"
  body :: "('n, 'm) final_options"

text \<open>
  The collaborators outside the class: the URL constructor of the runtime
  (\<^verbatim>\<open>new URL(input, base)\<close>, \<open>None\<close> when it throws) and \<^verbatim>\<open>this.fetch\<close> of the base
  class.
\<close>

record ('u, 'r) platform =
  new_URL :: "string \<Rightarrow> string \<Rightarrow> 'u option"
  fetch :: "'u \<Rightarrow> 'r \<Rightarrow> error + response"

text \<open>
  The observable effects of one operation, in the order they happen: a call of
  \<^verbatim>\<open>this.fetch\<close> with its arguments, a call of \<^verbatim>\<open>response.json()\<close>, and the
  iteration of \<^verbatim>\<open>streamSse(response)\<close>.
\<close>

datatype ('u, 'r) effect = Fetch 'u 'r | ReadJson | ReadSse

text \<open>
  A generator driven to exhaustion: the items it yielded, the error that ended it (if
  any), and the effects it performed.
\<close>

record ('a, 'e) run =
  yielded :: "'a list"
  thrown :: "error option"
  effects :: "'e list"

subsection \<open>Headers and endpoint resolution\<close>

text \<open>A template literal prints \<^verbatim>\<open>undefined\<close> as the word.\<close>

definition to_string :: "string option \<Rightarrow> string" where
  "to_string x = (case x of None \<Rightarrow> ''undefined'' | Some s \<Rightarrow> s)"

definition getHeaders :: "adapter \<Rightarrow> (string \<times> string) list" where
  "getHeaders this =
     [(''Content-Type'', ''application/json''),
      (''Authorization'', ''Bearer '' @ to_string (apiKey this))]"

definition no_api_base :: error where
  "no_api_base =
     Error ''No API base URL provided. Please set the 'apiBase' option in config.json''"

definition construct_URL :: "('u, 'r) platform \<Rightarrow> string \<Rightarrow> string \<Rightarrow> error + 'u" where
  "construct_URL P input base =
     (case new_URL P input base of
        None \<Rightarrow> Inl (TypeError ''Invalid URL'')
      | Some u \<Rightarrow> Inr u)"

text \<open>\<^verbatim>\<open>!this.apiBase\<close> holds for \<^verbatim>\<open>undefined\<close> and for the empty string.\<close>

definition getEndpoint :: "('u, 'r) platform \<Rightarrow> adapter \<Rightarrow> string \<Rightarrow> error + 'u" where
  "getEndpoint P this endpoint =
     (case apiBase this of
        None \<Rightarrow> Inl no_api_base
      | Some base \<Rightarrow>
          if base = [] then Inl no_api_base
          else if endpoint = ''completions'' then construct_URL P ''chat/completions'' base
          else construct_URL P endpoint base)"

subsection \<open>The chat-delta sequence\<close>

text \<open>\<^verbatim>\<open>value.choices?.[0]\<close> and \<^verbatim>\<open>value.choices?.[0]?.delta?.content\<close>.\<close>

definition first_choice :: "payload \<Rightarrow> choice option" where
  "first_choice v =
     (case choices v of None \<Rightarrow> None | Some [] \<Rightarrow> None | Some (c # cs) \<Rightarrow> Some c)"

definition delta_content :: "payload \<Rightarrow> string option" where
  "delta_content v =
     (case first_choice v of
        None \<Rightarrow> None
      | Some c \<Rightarrow> (case delta c of None \<Rightarrow> None | Some d \<Rightarrow> chat_delta.content d))"

text \<open>Truthiness of a value that is a string or \<^verbatim>\<open>undefined\<close>.\<close>

definition truthy :: "string option \<Rightarrow> bool" where
  "truthy x = (case x of None \<Rightarrow> False | Some s \<Rightarrow> s \<noteq> [])"

text \<open>
  The \<^verbatim>\<open>for await\<close> loop of \<^verbatim>\<open>_streamChat\<close> over the decoded events. The item
  yielded is \<^verbatim>\<open>value.choices[0].delta\<close>.
\<close>

fun sse_loop :: "payload list \<Rightarrow> chat_delta option list" where
  "sse_loop [] = []"
| "sse_loop (v # vs) =
     (if truthy (delta_content v)
      then (case first_choice v of None \<Rightarrow> None | Some c \<Rightarrow> delta c) # sse_loop vs
      else sse_loop vs)"

text \<open>
  \<^verbatim>\<open>data.choices[0].message\<close>: reading \<^verbatim>\<open>[0]\<close> of a missing \<^verbatim>\<open>choices\<close>, or
  \<^verbatim>\<open>.message\<close> of a missing first choice, is a \<^verbatim>\<open>TypeError\<close>; a first choice without
  a message gives \<^verbatim>\<open>undefined\<close>.
\<close>

definition first_message :: "payload \<Rightarrow> error + chat_delta option" where
  "first_message data =
     (case choices data of
        None \<Rightarrow> Inl (TypeError ''Cannot read properties of undefined (reading 0)'')
      | Some [] \<Rightarrow> Inl (TypeError ''Cannot read properties of undefined (reading message)'')
      | Some (c # cs) \<Rightarrow> Inr (message c))"

definition streamChat ::
  "('u, ('n, 'm) request) platform \<Rightarrow> adapter \<Rightarrow> 'm chat_message_scheme list \<Rightarrow>
   'n completion_options \<Rightarrow> (chat_delta option, ('u, ('n, 'm) request) effect) run"
where
  "streamChat P this msgs options =
     (let b = convertArgs this options msgs in
      case getEndpoint P this ''chat/completions'' of
        Inl e \<Rightarrow> \<lparr>yielded = [], thrown = Some e, effects = []\<rparr>
      | Inr url \<Rightarrow>
          (let req = \<lparr>method = ''POST'', headers = getHeaders this, body = b\<rparr> in
           case fetch P url req of
             Inl e \<Rightarrow> \<lparr>yielded = [], thrown = Some e, effects = [Fetch url req]\<rparr>
           | Inr resp \<Rightarrow>
               if final_options.stream b = False
               then (case json resp of
                       Inl e \<Rightarrow>
                         \<lparr>yielded = [], thrown = Some e, effects = [Fetch url req, ReadJson]\<rparr>
                     | Inr data \<Rightarrow>
                         (case first_message data of
                            Inl e \<Rightarrow>
                              \<lparr>yielded = [], thrown = Some e,
                               effects = [Fetch url req, ReadJson]\<rparr>
                          | Inr m \<Rightarrow>
                              \<lparr>yielded = [m], thrown = None,
                               effects = [Fetch url req, ReadJson]\<rparr>))
               else \<lparr>yielded = sse_loop (fst (streamSse resp)),
                     thrown = snd (streamSse resp),
                     effects = [Fetch url req, ReadSse]\<rparr>))"

subsection \<open>Text completion\<close>

text \<open>
  The loop body \<^verbatim>\<open>completion += chunk.content\<close>: reading \<^verbatim>\<open>content\<close> of an
  \<^verbatim>\<open>undefined\<close> chunk throws, and an \<^verbatim>\<open>undefined\<close> content is appended as the word.
\<close>

fun add_chunks :: "string \<Rightarrow> chat_delta option list \<Rightarrow> error + string" where
  "add_chunks completion [] = Inr completion"
| "add_chunks completion (chunk # rest) =
     (case chunk of
        None \<Rightarrow> Inl (TypeError ''Cannot read properties of undefined (reading content)'')
      | Some c \<Rightarrow> add_chunks (completion @ to_string (chat_delta.content c)) rest)"

text \<open>
  \<^verbatim>\<open>_complete\<close>: the result or the error, with the effects performed. An error of the
  loop body comes before the error that ends the generator, since the generator is
  resumed only after the body has run.
\<close>

definition complete ::
  "('u, ('n, unit) request) platform \<Rightarrow> adapter \<Rightarrow> string \<Rightarrow> 'n completion_options \<Rightarrow>
   (error + string) \<times> ('u, ('n, unit) request) effect list"
where
  "complete P this prompt options =
     (let g = streamChat P this [\<lparr>chat_message.role = ''user'', chat_message.content = Str prompt\<rparr>] options in
      case add_chunks [] (yielded g) of
        Inl e \<Rightarrow> (Inl e, effects g)
      | Inr completion \<Rightarrow>
          (case thrown g of
             Some e \<Rightarrow> (Inl e, effects g)
           | None \<Rightarrow> (Inr completion, effects g)))"

text \<open>
  \<^verbatim>\<open>_streamComplete\<close>, with \<^verbatim>\<open>stripImages\<close> (from \<^verbatim>\<open>../images.js\<close>) as a parameter.
\<close>

fun strip_chunks ::
  "(string option \<Rightarrow> string) \<Rightarrow> chat_delta option list \<Rightarrow> string list \<times> error option"
where
  "strip_chunks stripImages [] = ([], None)"
| "strip_chunks stripImages (chunk # rest) =
     (case chunk of
        None \<Rightarrow> ([], Some (TypeError ''Cannot read properties of undefined (reading content)''))
      | Some c \<Rightarrow>
          (case strip_chunks stripImages rest of
             (ys, e) \<Rightarrow> (stripImages (chat_delta.content c) # ys, e)))"

definition streamComplete ::
  "(string option \<Rightarrow> string) \<Rightarrow> ('u, ('n, unit) request) platform \<Rightarrow> adapter \<Rightarrow> string \<Rightarrow>
   'n completion_options \<Rightarrow> (string, ('u, ('n, unit) request) effect) run"
where
  "streamComplete stripImages P this prompt options =
     (let g = streamChat P this [\<lparr>chat_message.role = ''user'', chat_message.content = Str prompt\<rparr>] options in
      case strip_chunks stripImages (yielded g) of
        (ys, Some e) \<Rightarrow> \<lparr>yielded = ys, thrown = Some e, effects = effects g\<rparr>
      | (ys, None) \<Rightarrow> \<lparr>yielded = ys, thrown = thrown g, effects = effects g\<rparr>)"

subsection \<open>Reference notions and example inputs\<close>

text \<open>The text payload of a part; a part without one contributes nothing.\<close>

definition text_payload :: "part \<Rightarrow> string" where
  "text_payload p = (case text p of None \<Rightarrow> [] | Some t \<Rightarrow> t)"

text \<open>
  What the specification calls a content delta of a decoded event: the delta of the first
  choice, when that delta carries a non-empty text content; and the text fragment it
  carries. These follow the words of the specification, not the source, and are what
  the loop of \<^verbatim>\<open>_streamChat\<close> is compared with.
\<close>

definition content_delta :: "payload \<Rightarrow> chat_delta option" where
  "content_delta v =
     (case choices v of
        Some (c # cs) \<Rightarrow>
          (case delta c of
             Some d \<Rightarrow> (case chat_delta.content d of Some (x # xs) \<Rightarrow> Some d | _ \<Rightarrow> None)
           | None \<Rightarrow> None)
      | _ \<Rightarrow> None)"

definition fragment :: "payload \<Rightarrow> string option" where
  "fragment v = (case content_delta v of None \<Rightarrow> None | Some d \<Rightarrow> chat_delta.content d)"

text \<open>The single user message that \<^verbatim>\<open>_complete\<close> builds from a prompt.\<close>

definition user_message :: "string \<Rightarrow> chat_message" where
  "user_message prompt = \<lparr>chat_message.role = ''user'', chat_message.content = Str prompt\<rparr>"

text \<open>Two text parts and an image part.\<close>

definition hel :: part where "hel = \<lparr>type = ''text'', text = Some ''Hel'', imageUrl = None, image_url = None\<rparr>"
definition lo :: part where "lo = \<lparr>type = ''text'', text = Some ''lo'', imageUrl = None, image_url = None\<rparr>"
definition pic :: part where "pic = \<lparr>type = ''imageUrl'', text = None, imageUrl = Some [''url'' \<mapsto> ''data:image/png;base64,AA==''], image_url = None\<rparr>"

text \<open>
  An adapter with the default base URL, an options bag with three stop words and no
  streaming flag, a server that answers every request with one whole response and one
  event stream, and a platform whose URL constructor appends the path to the base.
\<close>

definition nebius :: adapter where
  "nebius = \<lparr>apiBase = Some ''https://api.studio.nebius.ai/v1/'', apiKey = Some ''secret'', maxStopWords = None\<rparr>"

definition opts :: "int completion_options" where
  "opts = \<lparr>completion_options.model = ''Qwen/Qwen2.5-Coder-7B'', maxTokens = Some 64,
     completion_options.temperature = None, topP = None, frequencyPenalty = None, presencePenalty = None,
     completion_options.stream = None, completion_options.stop = Some [''a'', ''b'', ''c'']\<rparr>"

definition delta_event :: "string option \<Rightarrow> payload" where
  "delta_event c = \<lparr>choices = Some [\<lparr>delta = Some \<lparr>chat_delta.role = None, chat_delta.content = c\<rparr>, message = None\<rparr>]\<rparr>"

definition done_message :: chat_delta where
  "done_message = \<lparr>chat_delta.role = Some ''assistant'', chat_delta.content = Some ''done''\<rparr>"

definition server :: response where
  "server = \<lparr>json = Inr \<lparr>choices = Some [\<lparr>delta = None, message = Some done_message\<rparr>]\<rparr>,
     streamSse = ([delta_event (Some ''Hel''), \<lparr>choices = Some []\<rparr>, delta_event (Some ''lo''),
                   delta_event (Some []), delta_event None, delta_event (Some '' world'')], None)\<rparr>"

definition web :: "(string, (int, unit) request) platform" where
  "web = \<lparr>new_URL = (\<lambda>input base. Some (base @ input)), fetch = (\<lambda>url req. Inr server)\<rparr>"

section \<open>Properties\<close>

subsection \<open>Message normaliser\<close>

lemma all_text_iff: "(\<not> list_ex (\<lambda>item. type item \<noteq> ''text'') items) = (\<forall>p\<in>set items. type p = ''text'')"
  by (simp add: list_ex_iff)

lemma join_empty_text: "join_empty (map text items) = concat (map text_payload items)"
  by (induction items) (simp_all add: join_empty_def text_payload_def)

text \<open>
  C5. A message whose content is a plain string is returned unchanged. A message whose
  content is a sequence of text parts only is returned with the concatenation of the
  text payloads, in order, as its content, and normalising that result again changes
  nothing.
\<close>

theorem convertMessage_text:
  "(chat_message.content m = Str s \<longrightarrow> convertMessage m = m) \<and>
   (chat_message.content m = Parts items \<and> (\<forall>p\<in>set items. type p = ''text'') \<longrightarrow>
      convertMessage m = m\<lparr>chat_message.content := Str (concat (map text_payload items))\<rparr> \<and>
      convertMessage (convertMessage m) = convertMessage m)"
  by (simp add: convertMessage_def all_text_iff join_empty_text)

theorem convertMessage_text_witness:
  "convertMessage \<lparr>chat_message.role = ''user'', chat_message.content = Parts [hel, lo]\<rparr>
     = \<lparr>chat_message.role = ''user'', chat_message.content = Str ''Hello''\<rparr> \<and>
   convertMessage (convertMessage \<lparr>chat_message.role = ''user'', chat_message.content = Parts [hel, lo]\<rparr>)
     = \<lparr>chat_message.role = ''user'', chat_message.content = Str ''Hello''\<rparr> \<and>
   convertMessage \<lparr>chat_message.role = ''user'', chat_message.content = Str ''Hello''\<rparr>
     = \<lparr>chat_message.role = ''user'', chat_message.content = Str ''Hello''\<rparr>"
  using convertMessage_text [of "\<lparr>chat_message.role = ''user'', chat_message.content = Parts [hel, lo]\<rparr>" "''x''" "[hel, lo]"]
    convertMessage_text [of "\<lparr>chat_message.role = ''user'', chat_message.content = Str ''Hello''\<rparr>" "''Hello''" "[]"]
  by (simp add: hel_def lo_def text_payload_def)

text \<open>
  C6. A message with at least one non-text part is returned with a sequence of wire parts
  of the same length and order. Each wire part carries the text of its part; an image
  part gets the kind tag \<^verbatim>\<open>image_url\<close> and an image reference whose \<^verbatim>\<open>detail\<close> is
  \<^verbatim>\<open>low\<close> and whose other properties are those of the part's image reference; any
  other part keeps its kind tag and gets no image reference.
\<close>

theorem convertMessage_mixed:
  assumes "chat_message.content m = Parts items" and "\<exists>p\<in>set items. type p \<noteq> ''text''"
  shows "\<exists>ws. chat_message.content (convertMessage m) = Parts ws \<and> length ws = length items \<and>
     (\<forall>i<length items.
        text (ws ! i) = text (items ! i) \<and>
        (type (items ! i) = ''imageUrl'' \<longrightarrow>
           type (ws ! i) = ''image_url'' \<and>
           (\<exists>obj. image_url (ws ! i) = Some obj \<and> obj ''detail'' = Some ''low'' \<and>
              (\<forall>k. k \<noteq> ''detail'' \<longrightarrow> obj k = spread (imageUrl (items ! i)) k))) \<and>
        (type (items ! i) \<noteq> ''imageUrl'' \<longrightarrow>
           type (ws ! i) = type (items ! i) \<and> image_url (ws ! i) = None))"
  using assms by (auto simp: convertMessage_def all_text_iff convertPart_def Let_def)

theorem convertMessage_mixed_witness:
  "\<exists>ws. chat_message.content (convertMessage \<lparr>chat_message.role = ''user'', chat_message.content = Parts [hel, pic]\<rparr>) = Parts ws
     \<and> length ws = 2 \<and> text (ws ! 0) = Some ''Hel'' \<and> type (ws ! 0) = ''text'' \<and> image_url (ws ! 0) = None
     \<and> type (ws ! 1) = ''image_url''
     \<and> (\<exists>obj. image_url (ws ! 1) = Some obj \<and> obj ''detail'' = Some ''low'' \<and> obj ''url'' = Some ''data:image/png;base64,AA=='')"
proof -
  let ?m = "\<lparr>chat_message.role = ''user'', chat_message.content = Parts [hel, pic]\<rparr>"
  have a: "chat_message.content ?m = Parts [hel, pic]" by simp
  have b: "\<exists>p\<in>set [hel, pic]. type p \<noteq> ''text''" by (simp add: pic_def)
  from convertMessage_mixed [OF a b] obtain ws where
    c: "chat_message.content (convertMessage ?m) = Parts ws" and l: "length ws = length [hel, pic]"
    and r: "\<forall>i<length [hel, pic].
        text (ws ! i) = text ([hel, pic] ! i) \<and>
        (type ([hel, pic] ! i) = ''imageUrl'' \<longrightarrow>
           type (ws ! i) = ''image_url'' \<and>
           (\<exists>obj. image_url (ws ! i) = Some obj \<and> obj ''detail'' = Some ''low'' \<and>
              (\<forall>k. k \<noteq> ''detail'' \<longrightarrow> obj k = spread (imageUrl ([hel, pic] ! i)) k))) \<and>
        (type ([hel, pic] ! i) \<noteq> ''imageUrl'' \<longrightarrow>
           type (ws ! i) = type ([hel, pic] ! i) \<and> image_url (ws ! i) = None)"
    by blast
  have i0: "(0::nat) < length [hel, pic]" and i1: "(1::nat) < length [hel, pic]" by simp_all
  from r [rule_format, OF i0]
  have r0: "text (ws ! 0) = Some ''Hel'' \<and> type (ws ! 0) = ''text'' \<and> image_url (ws ! 0) = None"
    by (simp add: hel_def)
  from r [rule_format, OF i1]
  have "type (ws ! 1) = ''image_url'' \<and>
           (\<exists>obj. image_url (ws ! 1) = Some obj \<and> obj ''detail'' = Some ''low'' \<and>
              (\<forall>k. k \<noteq> ''detail'' \<longrightarrow> obj k = spread (imageUrl pic) k))"
    by (simp add: pic_def)
  then obtain obj where t1: "type (ws ! 1) = ''image_url''" and o1: "image_url (ws ! 1) = Some obj"
    and d1: "obj ''detail'' = Some ''low''"
    and k1: "\<forall>k. k \<noteq> ''detail'' \<longrightarrow> obj k = spread (imageUrl pic) k"
    by blast
  from k1 [rule_format, of "''url''"] have "obj ''url'' = Some ''data:image/png;base64,AA==''"
    by (simp add: pic_def spread_def)
  with t1 o1 d1 have r1: "type (ws ! 1) = ''image_url'' \<and>
     (\<exists>obj. image_url (ws ! 1) = Some obj \<and> obj ''detail'' = Some ''low'' \<and> obj ''url'' = Some ''data:image/png;base64,AA=='')"
    by simp
  from c l r0 r1 show ?thesis by simp
qed

text \<open>
  C10. In all three branches the normaliser leaves the role and every other property
  except the content as it was.
\<close>

theorem convertMessage_frame:
  "chat_message.role (convertMessage m) = chat_message.role m \<and>
   chat_message.more (convertMessage m) = chat_message.more m"
  by (simp add: convertMessage_def split: message_content.split)

theorem convertMessage_frame_witness:
  "chat_message.role (convertMessage \<lparr>chat_message.role = ''user'', chat_message.content = Parts [hel, pic], \<dots> = ''id-7''\<rparr>) = ''user'' \<and>
   chat_message.more (convertMessage \<lparr>chat_message.role = ''user'', chat_message.content = Parts [hel, pic], \<dots> = ''id-7''\<rparr>) = ''id-7''"
  using convertMessage_frame [of "\<lparr>chat_message.role = ''user'', chat_message.content = Parts [hel, pic], \<dots> = ''id-7''\<rparr>"]
  by simp

subsection \<open>Request builder\<close>

lemma slice0_take: "0 \<le> n \<Longrightarrow> slice0 xs n = take (nat n) xs"
  by (simp add: slice0_def Let_def min_def)

text \<open>
  C4. When a maximum stop-word count \<open>n\<close> is configured (a count: \<open>0 \<le> n\<close>), the
  stop list of the request is the first \<open>n\<close> entries of the caller's list in their
  order, and an absent list stays absent. When no maximum is configured the stop list is
  passed on as it is, absent or not.
\<close>

theorem convertArgs_stop:
  "(maxStopWords this = Some n \<and> 0 \<le> n \<longrightarrow>
      final_options.stop (convertArgs this options msgs)
        = map_option (take (nat n)) (completion_options.stop options)) \<and>
   (maxStopWords this = None \<longrightarrow>
      final_options.stop (convertArgs this options msgs) = completion_options.stop options)"
  by (simp add: convertArgs_def slice0_take split: option.split)

theorem convertArgs_stop_witness:
  "final_options.stop (convertArgs (nebius\<lparr>maxStopWords := Some 2\<rparr>) opts ([] :: chat_message list)) = Some [''a'', ''b''] \<and>
   final_options.stop (convertArgs (nebius\<lparr>maxStopWords := Some 2\<rparr>) (opts\<lparr>completion_options.stop := None\<rparr>) ([] :: chat_message list)) = None \<and>
   final_options.stop (convertArgs nebius opts ([] :: chat_message list)) = Some [''a'', ''b'', ''c''] \<and>
   final_options.stop (convertArgs nebius (opts\<lparr>completion_options.stop := None\<rparr>) ([] :: chat_message list)) = None"
  using convertArgs_stop [of "nebius\<lparr>maxStopWords := Some 2\<rparr>" 2 opts "[] :: chat_message list"]
    convertArgs_stop [of "nebius\<lparr>maxStopWords := Some 2\<rparr>" 2 "opts\<lparr>completion_options.stop := None\<rparr>" "[] :: chat_message list"]
    convertArgs_stop [of nebius 0 opts "[] :: chat_message list"]
    convertArgs_stop [of nebius 0 "opts\<lparr>completion_options.stop := None\<rparr>" "[] :: chat_message list"]
  by (simp add: nebius_def opts_def)

text \<open>
  C7. When the caller leaves the streaming flag unspecified, the request's
  \<^verbatim>\<open>stream\<close> field is true; when the caller gives a value, that value is used.
\<close>

theorem convertArgs_stream:
  "final_options.stream (convertArgs this (options\<lparr>completion_options.stream := None\<rparr>) msgs) = True \<and>
   final_options.stream (convertArgs this (options\<lparr>completion_options.stream := Some b\<rparr>) msgs) = b"
  by (simp add: convertArgs_def)

theorem convertArgs_stream_witness:
  "final_options.stream (convertArgs nebius opts ([] :: chat_message list)) = True \<and>
   final_options.stream (convertArgs nebius (opts\<lparr>completion_options.stream := Some False\<rparr>) ([] :: chat_message list)) = False"
  using convertArgs_stream [of nebius opts "[] :: chat_message list" False]
  by (simp add: opts_def)

subsection \<open>Endpoint resolution\<close>

text \<open>
  C8. The legacy name \<^verbatim>\<open>completions\<close> resolves to the same result as
  \<^verbatim>\<open>chat/completions\<close>: the path \<^verbatim>\<open>chat/completions\<close> relative to the configured base
  URL. \<^verbatim>\<open>chat/completions\<close> and \<^verbatim>\<open>models\<close> resolve to their own paths relative to
  the base URL.
\<close>

theorem getEndpoint_paths:
  "getEndpoint P this ''completions'' = getEndpoint P this ''chat/completions'' \<and>
   (apiBase this = Some base \<and> base \<noteq> [] \<longrightarrow>
      getEndpoint P this ''completions'' = construct_URL P ''chat/completions'' base \<and>
      getEndpoint P this ''chat/completions'' = construct_URL P ''chat/completions'' base \<and>
      getEndpoint P this ''models'' = construct_URL P ''models'' base)"
  by (simp add: getEndpoint_def split: option.split)

theorem getEndpoint_paths_witness:
  "getEndpoint web nebius ''completions'' = Inr ''https://api.studio.nebius.ai/v1/chat/completions'' \<and>
   getEndpoint web nebius ''chat/completions'' = Inr ''https://api.studio.nebius.ai/v1/chat/completions'' \<and>
   getEndpoint web nebius ''models'' = Inr ''https://api.studio.nebius.ai/v1/models''"
  using getEndpoint_paths [of web nebius "''https://api.studio.nebius.ai/v1/''"]
  by (simp add: nebius_def web_def construct_URL_def)

lemma getEndpoint_unset:
  "apiBase this = None \<or> apiBase this = Some [] \<Longrightarrow> getEndpoint P this endpoint = Inl no_api_base"
  by (auto simp: getEndpoint_def)

lemma streamChat_unset:
  "apiBase this = None \<or> apiBase this = Some [] \<Longrightarrow>
   streamChat P this msgs options = \<lparr>yielded = [], thrown = Some no_api_base, effects = []\<rparr>"
  by (simp add: streamChat_def Let_def getEndpoint_unset)

lemma construct_URL_not_config: "construct_URL P input base \<noteq> Inl no_api_base"
  by (simp add: construct_URL_def no_api_base_def split: option.split)

lemma getEndpoint_set:
  "apiBase this = Some base \<Longrightarrow> base \<noteq> [] \<Longrightarrow> getEndpoint P this endpoint \<noteq> Inl no_api_base"
  by (simp add: getEndpoint_def construct_URL_not_config)

lemma streamChat_fetches:
  "getEndpoint P this ''chat/completions'' = Inr url \<Longrightarrow>
   \<exists>rest. effects (streamChat P this msgs options)
     = Fetch url \<lparr>method = ''POST'', headers = getHeaders this, body = convertArgs this options msgs\<rparr> # rest"
  by (simp add: streamChat_def Let_def split: sum.split)

text \<open>
  C9. While the base URL is unset (\<^verbatim>\<open>undefined\<close> or empty), endpoint resolution throws
  the configuration error, and each of the three operations ends with that error having
  yielded nothing and performed no effect: no request is issued. With a base URL
  present the resolver does not throw the configuration error: its outcome is that of
  the URL constructor on the path and the base. Once the endpoint is resolved the
  request is issued.
\<close>

theorem missing_apiBase:
  "(apiBase this = None \<or> apiBase this = Some [] \<longrightarrow>
      getEndpoint P this endpoint = Inl no_api_base \<and>
      streamChat P this msgs options = \<lparr>yielded = [], thrown = Some no_api_base, effects = []\<rparr> \<and>
      complete Q this prompt options = (Inl no_api_base, []) \<and>
      streamComplete stripImages Q this prompt options
        = \<lparr>yielded = [], thrown = Some no_api_base, effects = []\<rparr>) \<and>
   (apiBase this = Some base \<and> base \<noteq> [] \<longrightarrow>
      getEndpoint P this endpoint \<noteq> Inl no_api_base \<and>
      getEndpoint P this endpoint
        = construct_URL P (if endpoint = ''completions'' then ''chat/completions'' else endpoint) base \<and>
      (\<forall>url. getEndpoint P this ''chat/completions'' = Inr url \<longrightarrow>
         (\<exists>rest. effects (streamChat P this msgs options)
            = Fetch url \<lparr>method = ''POST'', headers = getHeaders this,
                          body = convertArgs this options msgs\<rparr> # rest)))"
proof (intro conjI impI allI)
  assume u: "apiBase this = None \<or> apiBase this = Some []"
  then show "getEndpoint P this endpoint = Inl no_api_base" by (rule getEndpoint_unset)
  from u show "streamChat P this msgs options = \<lparr>yielded = [], thrown = Some no_api_base, effects = []\<rparr>"
    by (rule streamChat_unset)
  from u show "complete Q this prompt options = (Inl no_api_base, [])"
    by (simp add: complete_def streamChat_unset)
  from u show "streamComplete stripImages Q this prompt options
        = \<lparr>yielded = [], thrown = Some no_api_base, effects = []\<rparr>"
    by (simp add: streamComplete_def streamChat_unset)
next
  assume "apiBase this = Some base \<and> base \<noteq> []"
  then show "getEndpoint P this endpoint \<noteq> Inl no_api_base" by (simp add: getEndpoint_set)
next
  assume "apiBase this = Some base \<and> base \<noteq> []"
  then show "getEndpoint P this endpoint
        = construct_URL P (if endpoint = ''completions'' then ''chat/completions'' else endpoint) base"
    by (simp add: getEndpoint_def)
next
  fix url assume "getEndpoint P this ''chat/completions'' = Inr url"
  then show "\<exists>rest. effects (streamChat P this msgs options)
            = Fetch url \<lparr>method = ''POST'', headers = getHeaders this,
                          body = convertArgs this options msgs\<rparr> # rest"
    by (rule streamChat_fetches)
qed

theorem missing_apiBase_witness:
  "getEndpoint web (nebius\<lparr>apiBase := None\<rparr>) ''models'' = Inl no_api_base \<and>
   streamChat web (nebius\<lparr>apiBase := None\<rparr>) [] opts = \<lparr>yielded = [], thrown = Some no_api_base, effects = []\<rparr> \<and>
   complete web (nebius\<lparr>apiBase := Some []\<rparr>) ''hi'' opts = (Inl no_api_base, []) \<and>
   streamComplete to_string web (nebius\<lparr>apiBase := Some []\<rparr>) ''hi'' opts
      = \<lparr>yielded = [], thrown = Some no_api_base, effects = []\<rparr> \<and>
   getEndpoint web nebius ''models'' \<noteq> Inl no_api_base \<and>
   (\<exists>rest. effects (streamChat web nebius [] opts)
      = Fetch ''https://api.studio.nebius.ai/v1/chat/completions''
          \<lparr>method = ''POST'', headers = getHeaders nebius, body = convertArgs nebius opts []\<rparr> # rest)"
proof -
  have e: "getEndpoint web nebius ''chat/completions'' = Inr ''https://api.studio.nebius.ai/v1/chat/completions''"
    by (simp add: getEndpoint_def nebius_def web_def construct_URL_def)
  show ?thesis
    using missing_apiBase [of "nebius\<lparr>apiBase := None\<rparr>" web "''models''" "[]" opts web "''hi''" to_string "[]"]
      missing_apiBase [of "nebius\<lparr>apiBase := Some []\<rparr>" web "''models''" "[]" opts web "''hi''" to_string "[]"]
      missing_apiBase [of nebius web "''models''" "[]" opts web "''hi''" to_string "''https://api.studio.nebius.ai/v1/''"] e
    by (simp add: nebius_def construct_URL_not_config)
qed

subsection \<open>The chat-delta sequence\<close>

lemma sse_loop_content_delta: "sse_loop evs = map Some (List.map_filter content_delta evs)"
proof (induction evs)
  case Nil
  show ?case by simp
next
  case (Cons v evs)
  show ?case
  proof (cases "content_delta v")
    case None
    then have "\<not> truthy (delta_content v)"
      by (auto simp: content_delta_def truthy_def delta_content_def first_choice_def
          split: option.splits list.splits)
    with None Cons show ?thesis by simp
  next
    case (Some d)
    then have "truthy (delta_content v)" and "(case first_choice v of None \<Rightarrow> None | Some c \<Rightarrow> delta c) = Some d"
      by (auto simp: content_delta_def truthy_def delta_content_def first_choice_def
          split: option.splits list.splits)
    with Some Cons show ?thesis by simp
  qed
qed

lemma streamChat_streaming:
  assumes "getEndpoint P this ''chat/completions'' = Inr url"
    and "fetch P url \<lparr>method = ''POST'', headers = getHeaders this,
                      body = convertArgs this options msgs\<rparr> = Inr resp"
    and "final_options.stream (convertArgs this options msgs)"
  shows "streamChat P this msgs options =
     \<lparr>yielded = sse_loop (fst (streamSse resp)), thrown = snd (streamSse resp),
      effects = [Fetch url \<lparr>method = ''POST'', headers = getHeaders this,
                            body = convertArgs this options msgs\<rparr>, ReadSse]\<rparr>"
  using assms by (simp add: streamChat_def Let_def)

text \<open>
  C1. In streaming mode (the endpoint resolves, the request is answered, and the
  \<^verbatim>\<open>stream\<close> field of the request is true), for every sequence of decoded events
  the items yielded are exactly the content deltas of the events, one for each event
  whose first choice's delta carries non-empty text content, in arrival order; every
  other event yields nothing. The sequence ends the way the event source ends.
\<close>

theorem streamChat_deltas:
  assumes "getEndpoint P this ''chat/completions'' = Inr url"
    and "fetch P url \<lparr>method = ''POST'', headers = getHeaders this,
                      body = convertArgs this options msgs\<rparr> = Inr resp"
    and "final_options.stream (convertArgs this options msgs)"
    and "streamSse resp = (events, closing)"
  shows "yielded (streamChat P this msgs options) = map Some (List.map_filter content_delta events) \<and>
         thrown (streamChat P this msgs options) = closing"
  using assms by (simp add: streamChat_streaming sse_loop_content_delta)

theorem streamChat_deltas_witness:
  "yielded (streamChat web nebius [] opts)
     = [Some \<lparr>chat_delta.role = None, chat_delta.content = Some ''Hel''\<rparr>,
        Some \<lparr>chat_delta.role = None, chat_delta.content = Some ''lo''\<rparr>,
        Some \<lparr>chat_delta.role = None, chat_delta.content = Some '' world''\<rparr>] \<and>
   thrown (streamChat web nebius [] opts) = None"
proof -
  have e: "getEndpoint web nebius ''chat/completions'' = Inr ''https://api.studio.nebius.ai/v1/chat/completions''"
    by (simp add: getEndpoint_def nebius_def web_def construct_URL_def)
  have f: "fetch web ''https://api.studio.nebius.ai/v1/chat/completions''
      \<lparr>method = ''POST'', headers = getHeaders nebius, body = convertArgs nebius opts []\<rparr> = Inr server"
    by (simp add: web_def)
  have s: "final_options.stream (convertArgs nebius opts [])"
    by (simp add: convertArgs_def opts_def)
  have t: "streamSse server = ([delta_event (Some ''Hel''), \<lparr>choices = Some []\<rparr>, delta_event (Some ''lo''),
                   delta_event (Some []), delta_event None, delta_event (Some '' world'')], None)"
    by (simp add: server_def)
  show ?thesis
    using streamChat_deltas [OF e f s t]
    by (simp add: content_delta_def delta_event_def)
qed

text \<open>
  C2. When the \<^verbatim>\<open>stream\<close> field of the built request is false, no event stream is
  read and at most one item is yielded, whatever happens. When the request is answered
  and the body parses to an object with a first choice, the body is read once, exactly
  one item is yielded, the message of the first choice, and the sequence ends without
  an error.
\<close>

theorem streamChat_whole:
  assumes "final_options.stream (convertArgs this options msgs) = False"
  shows "ReadSse \<notin> set (effects (streamChat P this msgs options)) \<and>
     length (yielded (streamChat P this msgs options)) \<le> 1 \<and>
     (\<forall>url resp data c cs.
        getEndpoint P this ''chat/completions'' = Inr url \<and>
        fetch P url \<lparr>method = ''POST'', headers = getHeaders this,
                      body = convertArgs this options msgs\<rparr> = Inr resp \<and>
        json resp = Inr data \<and> choices data = Some (c # cs) \<longrightarrow>
        streamChat P this msgs options =
          \<lparr>yielded = [message c], thrown = None,
           effects = [Fetch url \<lparr>method = ''POST'', headers = getHeaders this,
                                 body = convertArgs this options msgs\<rparr>, ReadJson]\<rparr>)"
  using assms
  by (auto simp: streamChat_def Let_def first_message_def split: sum.splits option.splits list.splits)

theorem streamChat_whole_witness:
  "streamChat web nebius [] (opts\<lparr>completion_options.stream := Some False\<rparr>) =
     \<lparr>yielded = [Some done_message], thrown = None,
      effects = [Fetch ''https://api.studio.nebius.ai/v1/chat/completions''
                  \<lparr>method = ''POST'', headers = getHeaders nebius,
                   body = convertArgs nebius (opts\<lparr>completion_options.stream := Some False\<rparr>) []\<rparr>, ReadJson]\<rparr>"
proof -
  let ?o = "opts\<lparr>completion_options.stream := Some False\<rparr>"
  have e: "getEndpoint web nebius ''chat/completions'' = Inr ''https://api.studio.nebius.ai/v1/chat/completions''"
    by (simp add: getEndpoint_def nebius_def web_def construct_URL_def)
  have f: "fetch web ''https://api.studio.nebius.ai/v1/chat/completions''
      \<lparr>method = ''POST'', headers = getHeaders nebius, body = convertArgs nebius ?o []\<rparr> = Inr server"
    by (simp add: web_def)
  have s: "final_options.stream (convertArgs nebius ?o ([] :: chat_message list)) = False"
    by (simp add: convertArgs_def)
  have j: "json server = Inr \<lparr>choices = Some [\<lparr>delta = None, message = Some done_message\<rparr>]\<rparr>"
    by (simp add: server_def)
  have c: "choices \<lparr>choices = Some [\<lparr>delta = None, message = Some done_message\<rparr>]\<rparr>
      = Some (\<lparr>delta = None, message = Some done_message\<rparr> # [])" by simp
  from streamChat_whole [OF s, of web] e f j c show ?thesis by (metis choice.select_convs(2))
qed

subsection \<open>Text completion\<close>

lemma add_chunks_text:
  "map chat_delta.content ds = map Some frags \<Longrightarrow>
   add_chunks completion (map Some ds) = Inr (completion @ concat frags)"
proof (induction ds arbitrary: completion frags)
  case Nil
  then show ?case by simp
next
  case (Cons d ds)
  then obtain f fs where fr: "frags = f # fs" and d: "chat_delta.content d = Some f"
    and rest: "map chat_delta.content ds = map Some fs"
    by (cases frags) auto
  from Cons.IH [OF rest] d fr show ?case by (simp add: to_string_def)
qed

text \<open>
  C3. \<^verbatim>\<open>_complete\<close> sends the prompt as a single user message, unchanged by the
  normaliser, and drives the chat-delta sequence of that message to its end: when the
  sequence ends without an error and every item carries a text fragment, the result is
  the concatenation of the fragments in the order they were yielded, and the effects are
  those of the sequence.
\<close>

theorem complete_concat:
  assumes "yielded (streamChat P this [user_message prompt] options) = map Some ds"
    and "map chat_delta.content ds = map Some frags"
    and "thrown (streamChat P this [user_message prompt] options) = None"
  shows "complete P this prompt options
           = (Inr (concat frags), effects (streamChat P this [user_message prompt] options)) \<and>
         final_options.messages (convertArgs this options [user_message prompt])
           = [user_message prompt]"
  using assms add_chunks_text [OF assms(2), of "[]"]
  by (simp add: complete_def user_message_def convertArgs_def convertMessage_def)

theorem complete_concat_witness:
  "complete web nebius ''Say hello'' opts
     = (Inr ''Hello world'',
        [Fetch ''https://api.studio.nebius.ai/v1/chat/completions''
           \<lparr>method = ''POST'', headers = getHeaders nebius,
            body = convertArgs nebius opts [user_message ''Say hello'']\<rparr>, ReadSse]) \<and>
   final_options.messages (convertArgs nebius opts [user_message ''Say hello''])
     = [user_message ''Say hello'']"
proof -
  let ?ds = "[\<lparr>chat_delta.role = None, chat_delta.content = Some ''Hel''\<rparr>,
              \<lparr>chat_delta.role = None, chat_delta.content = Some ''lo''\<rparr>,
              \<lparr>chat_delta.role = None, chat_delta.content = Some '' world''\<rparr>]"
  have run: "streamChat web nebius [user_message ''Say hello''] opts =
     \<lparr>yielded = map Some ?ds, thrown = None,
      effects = [Fetch ''https://api.studio.nebius.ai/v1/chat/completions''
           \<lparr>method = ''POST'', headers = getHeaders nebius,
            body = convertArgs nebius opts [user_message ''Say hello'']\<rparr>, ReadSse]\<rparr>"
    by (simp add: streamChat_def Let_def getEndpoint_def nebius_def web_def construct_URL_def
        convertArgs_def opts_def server_def delta_event_def truthy_def delta_content_def
        first_choice_def)
  have y: "yielded (streamChat web nebius [user_message ''Say hello''] opts) = map Some ?ds"
    by (simp add: run)
  have c: "map chat_delta.content ?ds = map Some [''Hel'', ''lo'', '' world'']" by simp
  have t: "thrown (streamChat web nebius [user_message ''Say hello''] opts) = None"
    by (simp add: run)
  from complete_concat [OF y c t] show ?thesis by (simp add: run)
qed

text \<open>
  In streaming mode every yielded item carries a fragment, so the result is the
  concatenation of the fragments of the decoded events.
\<close>

lemma fragments_of_deltas:
  "map chat_delta.content (List.map_filter content_delta events)
     = map Some (List.map_filter fragment events)"
proof (induction events)
  case Nil
  show ?case by simp
next
  case (Cons v events)
  show ?case
  proof (cases "content_delta v")
    case None
    with Cons show ?thesis by (simp add: fragment_def)
  next
    case (Some d)
    then obtain f where "chat_delta.content d = Some f"
      by (auto simp: content_delta_def split: option.splits list.splits)
    with Some Cons show ?thesis by (simp add: fragment_def)
  qed
qed

lemma complete_streaming:
  assumes "getEndpoint P this ''chat/completions'' = Inr url"
    and "fetch P url \<lparr>method = ''POST'', headers = getHeaders this,
                      body = convertArgs this options [user_message prompt]\<rparr> = Inr resp"
    and "final_options.stream (convertArgs this options [user_message prompt])"
    and "streamSse resp = (events, None)"
  shows "fst (complete P this prompt options) = Inr (concat (List.map_filter fragment events))"
proof -
  from assms have run: "streamChat P this [user_message prompt] options =
     \<lparr>yielded = sse_loop events, thrown = None,
      effects = [Fetch url \<lparr>method = ''POST'', headers = getHeaders this,
                            body = convertArgs this options [user_message prompt]\<rparr>, ReadSse]\<rparr>"
    by (simp add: streamChat_streaming)
  have "add_chunks [] (sse_loop events) = Inr ([] @ concat (List.map_filter fragment events))"
    unfolding sse_loop_content_delta by (rule add_chunks_text) (rule fragments_of_deltas)
  with run show ?thesis by (simp add: complete_def user_message_def)
qed

end
